theory Spec2Isabelle
  imports Main "HOL-Library.AList"
begin

section \<open>JavaScript values\<close>

text \<open>
  The library is dynamically typed at run time: \<open>is\<close>, \<open>concat\<close> and \<open>match\<close> branch on
  \<open>typeof\<close>, on \<open>instanceof\<close> and on \<open>x.constructor.name\<close>. The values they see are modelled by
  one datatype.

  \<^item> The numbers are the doubles with an integral value: \<open>VNum n\<close> is the number \<open>n\<close> (\<open>n\<close> is
    then an integer that a double can hold, and \<open>VNum 0\<close> is \<open>+0\<close>), \<open>VNegZero\<close> is \<open>-0\<close>,
    \<open>VInf True\<close> and \<open>VInf False\<close> are \<open>Infinity\<close> and \<open>-Infinity\<close>, and \<open>VNaN\<close> is NaN. Numbers
    with a fractional part are not values of the model: the only arithmetic of the library
    is \<open>+\<close>, and the sum of two numbers of the model is again one of them.
  \<^item> \<open>VSym n\<close> is the symbol with identity \<open>n\<close>, \<open>VFun n\<close> the function with identity \<open>n\<close>; what
    a function does when called is given by an environment (see \<open>fenv\<close> below).
  \<^item> \<open>VObj chain props\<close> is an object: \<open>chain\<close> is its prototype chain, nearest prototype first,
    each entry the name of the prototype's constructor and the names of the methods the
    prototype carries; \<open>props\<close> are the own enumerable properties. A plain object has the chain
    \<open>plain\<close>, an object made by \<open>Object.create(null)\<close> the chain \<open>[]\<close>.
\<close>

datatype val =
    VUndefined
  | VNull
  | VBool bool
  | VNum int
  | VNegZero
  | VInf bool
  | VNaN
  | VBigInt int
  | VStr string
  | VSym nat
  | VFun nat
  | VArr "val list"
  | VObj "(string \<times> string list) list" "(string \<times> val) list"

datatype jstype =
  TyUndefined | TyObject | TyBoolean | TyNumber | TyBigint | TyString | TySymbol | TyFunction

fun typeof :: "val \<Rightarrow> jstype" where
  "typeof VUndefined = TyUndefined"
| "typeof VNull = TyObject"
| "typeof (VBool b) = TyBoolean"
| "typeof (VNum n) = TyNumber"
| "typeof VNegZero = TyNumber"
| "typeof (VInf s) = TyNumber"
| "typeof VNaN = TyNumber"
| "typeof (VBigInt n) = TyBigint"
| "typeof (VStr s) = TyString"
| "typeof (VSym n) = TySymbol"
| "typeof (VFun n) = TyFunction"
| "typeof (VArr xs) = TyObject"
| "typeof (VObj chain props) = TyObject"

text \<open>What the library itself raises, and what the host raises on its behalf.\<close>

datatype exn =
    TypeError
  | NoMatch val
  | Thrown val

text \<open>
  \<open>TypeError\<close> is the host's error for \<open>'map' in null\<close>, for reading a property of
  \<open>undefined\<close>, for spreading a value that is not iterable and for mixing bigint with number.
  \<open>NoMatch x\<close> is the \<open>Error\<close> that \<open>match\<close> throws, \<open>No match for '${x}'\<close>, kept with the value
  instead of the rendered message. \<open>Thrown v\<close> is whatever a caller-supplied function throws.
\<close>

fun truthy :: "val \<Rightarrow> bool" where
  "truthy VUndefined = False"
| "truthy VNull = False"
| "truthy (VBool b) = b"
| "truthy (VNum n) = (n \<noteq> 0)"
| "truthy VNegZero = False"
| "truthy (VInf s) = True"
| "truthy VNaN = False"
| "truthy (VBigInt n) = (n \<noteq> 0)"
| "truthy (VStr s) = (s \<noteq> [])"
| "truthy (VSym n) = True"
| "truthy (VFun n) = True"
| "truthy (VArr xs) = True"
| "truthy (VObj chain props) = True"

subsection \<open>Prototypes\<close>

definition object_proto :: "string \<times> string list" where
  "object_proto = (''Object'', [''constructor'', ''hasOwnProperty'', ''toString'', ''valueOf''])"

definition array_proto :: "string \<times> string list" where
  "array_proto = (''Array'',
     [''constructor'', ''concat'', ''filter'', ''map'', ''reduce'', ''reduceRight'', ''slice''])"

definition function_proto :: "string \<times> string list" where
  "function_proto = (''Function'', [''constructor'', ''apply'', ''bind'', ''call''])"

definition plain :: "(string \<times> string list) list" where
  "plain = [object_proto]"

definition error_chain :: "(string \<times> string list) list" where
  "error_chain = [(''Error'', [''constructor'', ''toString'']), object_proto]"

text \<open>The prototype chain of a value that is an object; a primitive has none of its own.\<close>

fun proto_chain :: "val \<Rightarrow> (string \<times> string list) list" where
  "proto_chain (VObj chain props) = chain"
| "proto_chain (VArr xs) = [array_proto, object_proto]"
| "proto_chain (VFun n) = [function_proto, object_proto]"
| "proto_chain v = []"

text \<open>
  \<open>k in x\<close>: the host raises a TypeError when \<open>x\<close> is not an object (\<open>null\<close> included);
  otherwise the key is looked for among the own properties and along the prototype chain.
  The index and \<open>length\<close> properties of an array are not string-keyed properties of the model.
\<close>

fun in_op :: "string \<Rightarrow> val \<Rightarrow> exn + bool" where
  "in_op k (VObj chain props) =
     Inr (k \<in> set (map fst props) \<or> k \<in> set (concat (map snd chain)))"
| "in_op k (VArr xs) = Inr (k \<in> set (concat (map snd (proto_chain (VArr xs)))))"
| "in_op k (VFun n) = Inr (k \<in> set (concat (map snd (proto_chain (VFun n)))))"
| "in_op k v = Inl TypeError"

text \<open>
  \<open>typeof x[k]\<close> for a value on which \<open>k in x\<close> has answered: an own property hides an
  inherited one, and every inherited member of the model is a method.
\<close>

definition typeof_member :: "val \<Rightarrow> string \<Rightarrow> jstype" where
  "typeof_member x k =
     (case x of
        VObj chain props \<Rightarrow>
          (case map_of props k of
             Some v \<Rightarrow> typeof v
           | None \<Rightarrow> if k \<in> set (concat (map snd chain)) then TyFunction else TyUndefined)
      | _ \<Rightarrow> if k \<in> set (concat (map snd (proto_chain x))) then TyFunction else TyUndefined)"

text \<open>\<open>x instanceof C\<close> for the constructor named \<open>c\<close>: a walk along the prototype chain.\<close>

definition instanceof :: "val \<Rightarrow> string \<Rightarrow> bool" where
  "instanceof x c = (c \<in> set (map fst (proto_chain x)))"

section \<open>The type predicate \<open>is\<close>\<close>

text \<open>
  The first argument of \<open>is\<close> is compared by the \<open>switch\<close> with the built-in constructors, with
  the \<open>Functor\<close> symbol, with \<open>undefined\<close> and with \<open>null\<close>. \<open>TCtor c\<close> is any other function
  that is a constructor (\<open>t.prototype.constructor === t\<close>), such as \<open>Error\<close>, \<open>Promise\<close> or a
  user's class; \<open>TVal v\<close> is any other value, a function without a prototype of its own
  (an arrow function) included.
\<close>

datatype tag =
    TBigInt | TBoolean | TFunction | TNumber | TObject | TSymbol | TString
  | TFunctor | TArray
  | TCtor string
  | TVal val

text \<open>The inner closure \<open>fn\<close> of \<open>is\<close>, one equation for each \<open>case\<close> of the \<open>switch\<close>.\<close>

fun is_fn :: "tag \<Rightarrow> val \<Rightarrow> exn + bool" where
  "is_fn TBigInt x = Inr (typeof x = TyBigint)"
| "is_fn TBoolean x = Inr (typeof x = TyBoolean)"
| "is_fn TFunction x = Inr (typeof x = TyFunction)"
| "is_fn TNumber x = Inr (typeof x = TyNumber)"
| "is_fn TObject x = Inr (typeof x = TyObject)"
| "is_fn TSymbol x = Inr (typeof x = TySymbol)"
| "is_fn TString x = Inr (typeof x = TyString)"
| "is_fn TFunctor x =
     (if typeof x = TyObject
      then (case in_op ''map'' x of
              Inl e \<Rightarrow> Inl e
            | Inr b \<Rightarrow> Inr (b \<and> typeof_member x ''map'' = TyFunction))
      else Inr False)"
| "is_fn TArray x = Inr (case x of VArr xs \<Rightarrow> True | _ \<Rightarrow> False)"
| "is_fn (TVal VUndefined) x = Inr (typeof x = TyUndefined)"
| "is_fn (TVal VNull) x = Inr (x = VNull)"
| "is_fn (TCtor c) x = Inr (instanceof x c)"
| "is_fn (TVal v) x = Inr (typeof x = typeof v)"

text \<open>
  \<open>is(t, x)\<close> answers with the closure itself when \<open>x\<close> is \<open>undefined\<close> (the curried form,
  also what \<open>is(t)\<close> with one argument returns), and with \<open>fn(x)\<close> otherwise.
\<close>

datatype is_result = IsBool bool | IsCurried tag

definition is_js :: "tag \<Rightarrow> val \<Rightarrow> exn + is_result" where
  "is_js t x =
     (if typeof x = TyUndefined then Inr (IsCurried t)
      else (case is_fn t x of Inl e \<Rightarrow> Inl e | Inr b \<Rightarrow> Inr (IsBool b)))"

text \<open>Truthiness of what \<open>is\<close> returned: a closure is truthy.\<close>

fun truthy_is :: "is_result \<Rightarrow> bool" where
  "truthy_is (IsBool b) = b"
| "truthy_is (IsCurried t) = True"

section \<open>Computations: state and exceptions\<close>

text \<open>
  A caller-supplied function may have effects and may throw. It is a function from its
  argument and the state of the world to an outcome (\<open>Inl\<close> the exception thrown, \<open>Inr\<close> the
  value returned) and the state it leaves. The state type is arbitrary: a call-counting
  stub uses a counter, a tracing stub the list of calls seen so far.
\<close>

type_synonym ('s, 'a) comp = "'s \<Rightarrow> (exn + 'a) \<times> 's"

type_synonym 's jsfun = "val \<Rightarrow> ('s, val) comp"

definition ret :: "'a \<Rightarrow> ('s, 'a) comp" where
  "ret a = (\<lambda>s. (Inr a, s))"

definition throw :: "exn \<Rightarrow> ('s, 'a) comp" where
  "throw e = (\<lambda>s. (Inl e, s))"

definition lift :: "exn + 'a \<Rightarrow> ('s, 'a) comp" where
  "lift r = (\<lambda>s. (r, s))"

definition bindS :: "('s, 'a) comp \<Rightarrow> ('a \<Rightarrow> ('s, 'b) comp) \<Rightarrow> ('s, 'b) comp" where
  "bindS m f = (\<lambda>s. case m s of (Inl e, s') \<Rightarrow> (Inl e, s') | (Inr a, s') \<Rightarrow> f a s')"

fun bindE :: "exn + 'a \<Rightarrow> ('a \<Rightarrow> exn + 'b) \<Rightarrow> exn + 'b" where
  "bindE (Inl e) f = Inl e"
| "bindE (Inr a) f = f a"

text \<open>
  Functions that are values (held by a container, or the entries of a matcher object) are
  \<open>VFun n\<close>; the environment says what the function with identity \<open>n\<close> does. Calling a
  value that is not a function is the host's TypeError.
\<close>

type_synonym 's fenv = "nat \<Rightarrow> 's jsfun"

fun call_val :: "'s fenv \<Rightarrow> val \<Rightarrow> 's jsfun" where
  "call_val env (VFun n) x = env n x"
| "call_val env f x = throw TypeError"

text \<open>An \<open>is(t, x)\<close> in the position of a condition: evaluated, then tested for truthiness.\<close>

definition cond_is :: "tag \<Rightarrow> val \<Rightarrow> exn + bool" where
  "cond_is t x = bindE (is_js t x) (\<lambda>r. Inr (truthy_is r))"

text \<open>The condition \<open>is(undefined, y) || is(null, y)\<close>, with the short circuit of \<open>||\<close>.\<close>

definition is_undefined_or_null :: "val \<Rightarrow> exn + bool" where
  "is_undefined_or_null y =
     bindE (cond_is (TVal VUndefined) y) (\<lambda>b. if b then Inr True else cond_is (TVal VNull) y)"

section \<open>Optional\<close>

datatype Optional = Optional (Optional_x: val)

definition Optional_of :: "val \<Rightarrow> exn + Optional" where
  "Optional_of x =
     bindE (is_undefined_or_null x)
       (\<lambda>b. if b then Inr (Optional VUndefined) else Inr (Optional x))"

text \<open>\<open>map\<close> starts with \<open>const y = fn(this.x)\<close>: the function is called whatever is held.\<close>

definition Optional_map :: "'s jsfun \<Rightarrow> Optional \<Rightarrow> ('s, Optional) comp" where
  "Optional_map fn this =
     bindS (fn (Optional_x this))
       (\<lambda>y. lift (bindE (is_undefined_or_null y)
          (\<lambda>b. if b then Inr (Optional VUndefined) else Inr (Optional y))))"


text \<open>\<open>bind\<close> starts with \<open>const y = fn(this.x).x\<close>; \<open>fn\<close> returns an Optional.\<close>

definition Optional_bind :: "(val \<Rightarrow> ('s, Optional) comp) \<Rightarrow> Optional \<Rightarrow> ('s, Optional) comp" where
  "Optional_bind fn this =
     bindS (fn (Optional_x this))
       (\<lambda>r. lift (bindE (is_undefined_or_null (Optional_x r))
          (\<lambda>b. if b then Inr (Optional VUndefined) else Inr (Optional (Optional_x r)))))"

section \<open>Result\<close>

datatype Result = Result (Result_x: val)

text \<open>An error value is an instance of \<open>Error\<close>; \<open>Result.of\<close> wraps either way.\<close>

definition Result_of :: "val \<Rightarrow> exn + Result" where
  "Result_of x =
     bindE (cond_is (TCtor ''Error'') x) (\<lambda>b. if b then Inr (Result x) else Inr (Result x))"

definition Result_map :: "'s jsfun \<Rightarrow> Result \<Rightarrow> ('s, Result) comp" where
  "Result_map fn this =
     bindS (lift (cond_is (TCtor ''Error'') (Result_x this)))
       (\<lambda>b. if b then ret this
             else bindS (fn (Result_x this)) (\<lambda>y. lift (Result_of y)))"

definition Result_apply :: "'s fenv \<Rightarrow> Result \<Rightarrow> Result \<Rightarrow> ('s, Result) comp" where
  "Result_apply env fn this =
     bindS (lift (cond_is (TCtor ''Error'') (Result_x fn)))
       (\<lambda>b. if b then ret this
             else Result_map (call_val env (Result_x fn)) this)"

definition Result_bind :: "(val \<Rightarrow> ('s, Result) comp) \<Rightarrow> Result \<Rightarrow> ('s, Result) comp" where
  "Result_bind fn this =
     bindS (lift (cond_is (TCtor ''Error'') (Result_x this)))
       (\<lambda>b. if b then ret this else fn (Result_x this))"

section \<open>The host operators that \<open>concat\<close> uses\<close>

text \<open>
  What the host does and the library cannot see is a parameter: the conversion of an
  object or a function to a primitive (\<open>valueOf\<close> and \<open>toString\<close>, which a program can
  override; one conversion where \<open>+\<close> asks for it and one where a template literal asks for
  a string), the rendering of a number beyond \<open>2^53\<close> (the shortest digits that read back
  as the same double), and the \<open>name\<close> of a function.
\<close>

record host =
  prim_default :: "val \<Rightarrow> exn + val"
  prim_string :: "val \<Rightarrow> exn + val"
  render_number :: "int \<Rightarrow> string"
  function_name :: "nat \<Rightarrow> string"

subsection \<open>Rendering numbers\<close>

function show_digits :: "int \<Rightarrow> string" where
  "show_digits n =
     (if n < 10 then [''0123456789'' ! nat n]
      else show_digits (n div 10) @ [''0123456789'' ! nat (n mod 10)])"
  by pat_completeness auto
termination
  by (relation "measure nat") auto

declare show_digits.simps [simp del]

definition show_int :: "int \<Rightarrow> string" where
  "show_int i = (if i < 0 then CHR ''-'' # show_digits (- i) else show_digits i)"

definition show_nat :: "nat \<Rightarrow> string" where
  "show_nat n = show_digits (int n)"

subsection \<open>Addition of numbers\<close>

text \<open>
  The sum of two doubles is the exact sum rounded to the nearest double, ties to the even
  significand. For integers: up to \<open>2^53\<close> in magnitude every integer is a double; beyond,
  a double keeps the 53 leading bits, and a sum that rounds to \<open>2^1024\<close> or more is an
  infinity.
\<close>

function bit_length :: "int \<Rightarrow> nat" where
  "bit_length n = (if n \<le> 0 then 0 else Suc (bit_length (n div 2)))"
  by pat_completeness auto
termination
  by (relation "measure nat") auto

declare bit_length.simps [simp del]

definition round_double :: "int \<Rightarrow> val" where
  "round_double n =
     (let m = \<bar>n\<bar> in
      if m < 2 ^ 53 then VNum n
      else
        (let e = bit_length m - 53;
             q = m div 2 ^ e;
             r = m mod 2 ^ e;
             q' = (if 2 ^ e < 2 * r \<or> (2 * r = 2 ^ e \<and> odd q) then q + 1 else q);
             v = q' * 2 ^ e
         in if 2 ^ 1024 \<le> v then VInf (0 < n)
            else VNum (if n < 0 then - v else v)))"

text \<open>Both operands are numbers here. \<open>-0\<close> is the neutral element, and \<open>x + (-x)\<close> is \<open>+0\<close>.\<close>

definition double_add :: "val \<Rightarrow> val \<Rightarrow> val" where
  "double_add a b =
     (if a = VNaN \<or> b = VNaN then VNaN
      else (case a of
          VInf s \<Rightarrow> (case b of VInf t \<Rightarrow> if s = t then VInf s else VNaN | _ \<Rightarrow> VInf s)
        | VNegZero \<Rightarrow> b
        | VNum i \<Rightarrow>
            (case b of
               VInf t \<Rightarrow> VInf t
             | VNegZero \<Rightarrow> VNum i
             | VNum j \<Rightarrow> round_double (i + j)
             | _ \<Rightarrow> VNaN)
        | _ \<Rightarrow> VNaN))"

subsection \<open>The operator \<open>+\<close>\<close>

text \<open>
  \<open>a + b\<close> first turns both operands into primitives; the host raises a TypeError when
  the conversion of an object does not deliver a primitive. Then, if one side is a string
  both are rendered and joined; otherwise both are numeric, bigint with bigint or number
  with number, and a mix of the two is a TypeError.
\<close>

definition is_primitive :: "val \<Rightarrow> bool" where
  "is_primitive v = (v = VNull \<or> (typeof v \<noteq> TyObject \<and> typeof v \<noteq> TyFunction))"

definition to_primitive :: "(val \<Rightarrow> exn + val) \<Rightarrow> val \<Rightarrow> exn + val" where
  "to_primitive conv v =
     (if is_primitive v then Inr v
      else bindE (conv v) (\<lambda>p. if is_primitive p then Inr p else Inl TypeError))"

text \<open>
  \<open>ToString\<close> of a primitive. An integer up to \<open>2^53\<close> in magnitude is rendered by its
  decimal digits; beyond that the digits are the host's.
\<close>

fun to_string :: "host \<Rightarrow> val \<Rightarrow> exn + string" where
  "to_string h VUndefined = Inr ''undefined''"
| "to_string h VNull = Inr ''null''"
| "to_string h (VBool b) = Inr (if b then ''true'' else ''false'')"
| "to_string h (VNum n) = Inr (if \<bar>n\<bar> \<le> 2 ^ 53 then show_int n else render_number h n)"
| "to_string h VNegZero = Inr ''0''"
| "to_string h (VInf s) = Inr (if s then ''Infinity'' else ''-Infinity'')"
| "to_string h VNaN = Inr ''NaN''"
| "to_string h (VBigInt n) = Inr (show_int n)"
| "to_string h (VStr s) = Inr s"
| "to_string h v = Inl TypeError"

text \<open>
  A number operand after \<open>ToNumber\<close>. Strings never reach it (\<open>+\<close> joins them first), a
  symbol is a TypeError, and a bigint is dealt with before.
\<close>

fun to_number :: "val \<Rightarrow> exn + val" where
  "to_number VUndefined = Inr VNaN"
| "to_number VNull = Inr (VNum 0)"
| "to_number (VBool b) = Inr (VNum (if b then 1 else 0))"
| "to_number (VNum n) = Inr (VNum n)"
| "to_number VNegZero = Inr VNegZero"
| "to_number (VInf s) = Inr (VInf s)"
| "to_number VNaN = Inr VNaN"
| "to_number v = Inl TypeError"

definition numeric_add :: "val \<Rightarrow> val \<Rightarrow> exn + val" where
  "numeric_add a b =
     (if typeof a = TyBigint \<or> typeof b = TyBigint
      then (case (a, b) of
              (VBigInt i, VBigInt j) \<Rightarrow> Inr (VBigInt (i + j))
            | _ \<Rightarrow> Inl TypeError)
      else bindE (to_number a) (\<lambda>m. bindE (to_number b) (\<lambda>n. Inr (double_add m n))))"

definition js_plus :: "host \<Rightarrow> val \<Rightarrow> val \<Rightarrow> exn + val" where
  "js_plus h a b =
     bindE (to_primitive (prim_default h) a) (\<lambda>pa. bindE (to_primitive (prim_default h) b) (\<lambda>pb.
       if typeof pa = TyString \<or> typeof pb = TyString
       then bindE (to_string h pa) (\<lambda>sa. bindE (to_string h pb) (\<lambda>sb. Inr (VStr (sa @ sb))))
       else numeric_add pa pb))"

text \<open>A value inside a template literal, \<open>`${x}`\<close>.\<close>

definition template :: "host \<Rightarrow> val \<Rightarrow> exn + string" where
  "template h x = bindE (to_primitive (prim_string h) x) (to_string h)"

subsection \<open>The operator \<open>&&\<close>\<close>

definition js_and :: "val \<Rightarrow> val \<Rightarrow> val" where
  "js_and a b = (if truthy a then b else a)"

subsection \<open>Spread\<close>

text \<open>
  \<open>[...v]\<close> iterates \<open>v\<close>: an array gives its elements, a string its characters, and a value
  that is not iterable is a TypeError. The objects of the model are not iterable.
\<close>

fun spread_array :: "val \<Rightarrow> exn + val list" where
  "spread_array (VArr xs) = Inr xs"
| "spread_array (VStr s) = Inr (map (\<lambda>c. VStr [c]) s)"
| "spread_array v = Inl TypeError"

text \<open>
  \<open>{...v}\<close> copies the own enumerable properties of \<open>v\<close>: those of an object, the indices of
  an array or of a string, and nothing for any other value (a function of the model has
  none).
\<close>

fun own_props :: "val \<Rightarrow> (string \<times> val) list" where
  "own_props (VObj chain props) = props"
| "own_props (VArr xs) = zip (map show_nat [0..<length xs]) xs"
| "own_props (VStr s) = zip (map show_nat [0..<length s]) (map (\<lambda>c. VStr [c]) s)"
| "own_props v = []"

text \<open>
  The host enumerates the keys of an object with the array indices first, in ascending
  order, and then the other keys in the order in which they were created. An array index
  is the canonical decimal string of an integer below \<open>2^32 - 1\<close>.
\<close>

fun parse_digits :: "int \<Rightarrow> string \<Rightarrow> int option" where
  "parse_digits acc [] = Some acc"
| "parse_digits acc (c # cs) =
     (case map_of (zip ''0123456789'' [0, 1, 2, 3, 4, 5, 6, 7, 8, 9]) c of
        None \<Rightarrow> None
      | Some d \<Rightarrow> parse_digits (10 * acc + d) cs)"

definition index_of :: "string \<Rightarrow> int option" where
  "index_of k =
     (if k = [] then None
      else (case parse_digits 0 k of
              None \<Rightarrow> None
            | Some n \<Rightarrow> if show_int n = k \<and> n < 2 ^ 32 - 1 then Some n else None))"

text \<open>Whether a new key \<open>k\<close> is enumerated before the existing key \<open>k'\<close>.\<close>

definition enumerated_before :: "string \<Rightarrow> string \<Rightarrow> bool" where
  "enumerated_before k k' =
     (case index_of k of
        None \<Rightarrow> False
      | Some i \<Rightarrow> (case index_of k' of None \<Rightarrow> True | Some j \<Rightarrow> i < j))"

fun insert_key :: "string \<Rightarrow> val \<Rightarrow> (string \<times> val) list \<Rightarrow> (string \<times> val) list" where
  "insert_key k v [] = [(k, v)]"
| "insert_key k v (p # ps) =
     (if enumerated_before k (fst p) then (k, v) # p # ps else p # insert_key k v ps)"

text \<open>
  Writing a property: one that the object has keeps its place and takes the new value, a
  new one takes its place in the enumeration.
\<close>

definition put_prop :: "string \<Rightarrow> val \<Rightarrow> (string \<times> val) list \<Rightarrow> (string \<times> val) list" where
  "put_prop k v obj =
     (if k \<in> fst ` set obj then AList.update k v obj else insert_key k v obj)"

definition put_props :: "(string \<times> val) list \<Rightarrow> (string \<times> val) list \<Rightarrow> (string \<times> val) list" where
  "put_props ps obj = fold (\<lambda>(k, v). put_prop k v) ps obj"

text \<open>\<open>{...a, ...b}\<close>: a fresh plain object that receives the properties of \<open>a\<close>, then those of \<open>b\<close>.\<close>

definition spread_object :: "val \<Rightarrow> val \<Rightarrow> val" where
  "spread_object a b = VObj plain (put_props (own_props b) (put_props (own_props a) []))"

section \<open>concat\<close>

text \<open>
  The body of \<open>Optional.concat\<close>, branch by branch. The last test is written
  \<open>is(Object, x) || is(Function)\<close>: its second half calls \<open>is\<close> with one argument.
\<close>

definition Optional_concat :: "host \<Rightarrow> val \<Rightarrow> Optional \<Rightarrow> exn + Optional" where
  "Optional_concat h x this =
     bindE (is_undefined_or_null (Optional_x this)) (\<lambda>b. if b then Inr (Optional x) else
     bindE (cond_is TBigInt x) (\<lambda>b. if b
       then bindE (js_plus h (Optional_x this) x) (\<lambda>r. Inr (Optional r)) else
     bindE (cond_is TNumber x) (\<lambda>b. if b
       then bindE (js_plus h (Optional_x this) x) (\<lambda>r. Inr (Optional r)) else
     bindE (cond_is TString x) (\<lambda>b. if b
       then bindE (js_plus h (Optional_x this) x) (\<lambda>r. Inr (Optional r)) else
     bindE (cond_is TBoolean x) (\<lambda>b. if b
       then Inr (Optional (js_and (Optional_x this) x)) else
     bindE (cond_is TArray x) (\<lambda>b. if b
       then bindE (spread_array (Optional_x this)) (\<lambda>xs. bindE (spread_array x) (\<lambda>ys.
              Inr (Optional (VArr (xs @ ys))))) else
     bindE (bindE (cond_is TObject x) (\<lambda>b. if b then Inr True else cond_is TFunction VUndefined))
       (\<lambda>b. if b
       then Inr (Optional (spread_object (Optional_x this) x))
       else Inr (Optional x))))))))"

text \<open>\<open>Result.concat\<close> has the same body, the same first test included.\<close>

definition Result_concat :: "host \<Rightarrow> val \<Rightarrow> Result \<Rightarrow> exn + Result" where
  "Result_concat h x this =
     bindE (is_undefined_or_null (Result_x this)) (\<lambda>b. if b then Inr (Result x) else
     bindE (cond_is TBigInt x) (\<lambda>b. if b
       then bindE (js_plus h (Result_x this) x) (\<lambda>r. Inr (Result r)) else
     bindE (cond_is TNumber x) (\<lambda>b. if b
       then bindE (js_plus h (Result_x this) x) (\<lambda>r. Inr (Result r)) else
     bindE (cond_is TString x) (\<lambda>b. if b
       then bindE (js_plus h (Result_x this) x) (\<lambda>r. Inr (Result r)) else
     bindE (cond_is TBoolean x) (\<lambda>b. if b
       then Inr (Result (js_and (Result_x this) x)) else
     bindE (cond_is TArray x) (\<lambda>b. if b
       then bindE (spread_array (Result_x this)) (\<lambda>xs. bindE (spread_array x) (\<lambda>ys.
              Inr (Result (VArr (xs @ ys))))) else
     bindE (bindE (cond_is TObject x) (\<lambda>b. if b then Inr True else cond_is TFunction VUndefined))
       (\<lambda>b. if b
       then Inr (Result (spread_object (Result_x this) x))
       else Inr (Result x))))))))"

section \<open>match\<close>

text \<open>
  \<open>x.constructor.name\<close>. \<open>x.constructor\<close> is an own property of \<open>x\<close> when there is one, and
  otherwise the constructor found along the prototype chain (for a primitive, along the
  chain of its wrapper). An object without one, such as \<open>Object.create(null)\<close>, has
  \<open>x.constructor === undefined\<close>, and reading \<open>name\<close> from \<open>undefined\<close> or \<open>null\<close> is a TypeError.
  The result is \<open>None\<close> when the name is not a string, so that no key equals it.
\<close>

definition name_of :: "host \<Rightarrow> val \<Rightarrow> exn + string option" where
  "name_of h c =
     (case c of
        VUndefined \<Rightarrow> Inl TypeError
      | VNull \<Rightarrow> Inl TypeError
      | VFun n \<Rightarrow> Inr (Some (function_name h n))
      | VObj chain props \<Rightarrow>
          Inr (case map_of props ''name'' of Some (VStr s) \<Rightarrow> Some s | _ \<Rightarrow> None)
      | _ \<Rightarrow> Inr None)"

definition inherited_constructor :: "val \<Rightarrow> exn + string option" where
  "inherited_constructor v =
     (case find (\<lambda>(c, ms). ''constructor'' \<in> set ms) (proto_chain v) of
        None \<Rightarrow> Inl TypeError
      | Some (c, ms) \<Rightarrow> Inr (Some c))"

fun constructor_name :: "host \<Rightarrow> val \<Rightarrow> exn + string option" where
  "constructor_name h VUndefined = Inl TypeError"
| "constructor_name h VNull = Inl TypeError"
| "constructor_name h (VBool b) = Inr (Some ''Boolean'')"
| "constructor_name h (VNum n) = Inr (Some ''Number'')"
| "constructor_name h VNegZero = Inr (Some ''Number'')"
| "constructor_name h (VInf s) = Inr (Some ''Number'')"
| "constructor_name h VNaN = Inr (Some ''Number'')"
| "constructor_name h (VBigInt n) = Inr (Some ''BigInt'')"
| "constructor_name h (VStr s) = Inr (Some ''String'')"
| "constructor_name h (VSym n) = Inr (Some ''Symbol'')"
| "constructor_name h (VObj chain props) =
     (case map_of props ''constructor'' of
        Some c \<Rightarrow> name_of h c
      | None \<Rightarrow> inherited_constructor (VObj chain props))"
| "constructor_name h v = inherited_constructor v"

text \<open>
  The test of the loop,
  \<open>x === k || x && (k === x.constructor.name || (k === 'Functor' && is(Functor, x)) || k === '_')\<close>,
  with the short circuits of \<open>||\<close> and \<open>&&\<close> in the order of the source.
\<close>

definition key_matches :: "host \<Rightarrow> string \<Rightarrow> val \<Rightarrow> exn + bool" where
  "key_matches h k x =
     (if x = VStr k then Inr True
      else if \<not> truthy x then Inr False
      else bindE (constructor_name h x) (\<lambda>c.
        if c = Some k then Inr True
        else bindE (if k = ''Functor'' then cond_is TFunctor x else Inr False) (\<lambda>b.
          if b then Inr True else Inr (k = ''_''))))"

text \<open>
  The matcher object is the list of its entries in the order of \<open>Object.keys\<close>. An entry
  that is a function is called with \<open>x\<close>, any other entry is returned as it is. After the
  loop the message \<open>`No match for '${x}'`\<close> is built, which is itself a TypeError when \<open>x\<close>
  cannot be rendered (a symbol, an object without \<open>toString\<close>), and the Error is thrown.
\<close>

fun match_keys ::
  "host \<Rightarrow> 's fenv \<Rightarrow> (string \<times> val) list \<Rightarrow> val \<Rightarrow> string list \<Rightarrow> ('s, val) comp" where
  "match_keys h env b x [] = bindS (lift (template h x)) (\<lambda>shown. throw (NoMatch x))"
| "match_keys h env b x (k # ks) =
     bindS (lift (key_matches h k x)) (\<lambda>hit.
       if hit
       then (case map_of b k of
               None \<Rightarrow> ret VUndefined
             | Some entry \<Rightarrow> if typeof entry = TyFunction then call_val env entry x else ret entry)
       else match_keys h env b x ks)"

datatype match_result = MatchValue val | MatchCurried

definition match_js ::
  "host \<Rightarrow> 's fenv \<Rightarrow> (string \<times> val) list \<Rightarrow> val \<Rightarrow> ('s, match_result) comp" where
  "match_js h env b x =
     (if typeof x = TyUndefined then ret MatchCurried
      else bindS (match_keys h env b x (map fst b)) (\<lambda>r. ret (MatchValue r)))"

section \<open>Effect\<close>

text \<open>
  An Effect holds a function of an argument list. \<open>y.then(fn)\<close> is the host's: reading
  \<open>then\<close> from \<open>undefined\<close> or \<open>null\<close> is a TypeError, and on a promise the host's \<open>then\<close>
  (the parameter \<open>host_then\<close>) registers \<open>fn\<close> and returns the new promise.
\<close>

datatype 's Effect = Effect (Effect_fn: "val list \<Rightarrow> ('s, val) comp")

definition promise_chain :: "(string \<times> string list) list" where
  "promise_chain = [(''Promise'', [''constructor'', ''then'', ''catch'', ''finally'']), object_proto]"

definition call_then :: "(val \<Rightarrow> 's jsfun \<Rightarrow> ('s, val) comp) \<Rightarrow> val \<Rightarrow> 's jsfun \<Rightarrow> ('s, val) comp" where
  "call_then host_then y fn =
     (case y of
        VUndefined \<Rightarrow> throw TypeError
      | VNull \<Rightarrow> throw TypeError
      | _ \<Rightarrow> host_then y fn)"

definition Effect_of :: "(val list \<Rightarrow> ('s, val) comp) \<Rightarrow> 's Effect" where
  "Effect_of fn = Effect fn"

definition Effect_map ::
  "(val \<Rightarrow> 's jsfun \<Rightarrow> ('s, val) comp) \<Rightarrow> 's jsfun \<Rightarrow> 's Effect \<Rightarrow> 's Effect" where
  "Effect_map host_then fn this =
     Effect (\<lambda>args.
       bindS (Effect_fn this args) (\<lambda>y.
         bindS (lift (cond_is (TCtor ''Promise'') y)) (\<lambda>b.
           if b then call_then host_then y fn else fn y)))"

definition Effect_call :: "'s Effect \<Rightarrow> val list \<Rightarrow> ('s, val) comp" where
  "Effect_call this args = Effect_fn this args"

section \<open>curry\<close>

text \<open>
  A function to be curried: its \<open>length\<close> and what \<open>fn.apply(this, args)\<close> does. The curried
  function returns either what \<open>fn\<close> returned or the arrow function
  \<open>(...next) => curried.apply(this, [...args, ...next])\<close>, a closure over \<open>this\<close> and \<open>args\<close>.
\<close>

record 's jsfunction =
  fn_length :: nat
  fn_apply :: "val \<Rightarrow> val list \<Rightarrow> ('s, val) comp"

datatype curry_out = Returned val | Partial val "val list"

definition curried :: "'s jsfunction \<Rightarrow> val \<Rightarrow> val list \<Rightarrow> ('s, curry_out) comp" where
  "curried fn this args =
     (if length args \<ge> fn_length fn
      then bindS (fn_apply fn this args) (\<lambda>r. ret (Returned r))
      else ret (Partial this args))"

definition partial_call :: "'s jsfunction \<Rightarrow> val \<Rightarrow> val list \<Rightarrow> val list \<Rightarrow> ('s, curry_out) comp" where
  "partial_call fn this args next = curried fn this (args @ next)"

text \<open>
  A chain of applications \<open>curry(fn)(b1)(b2)...\<close>, one argument list after the other. Once
  \<open>fn\<close> has returned, a further application calls the value it returned, which is the
  host's business (the parameter \<open>call_returned\<close>).
\<close>

fun apply_batches ::
  "(val \<Rightarrow> val list \<Rightarrow> ('s, val) comp) \<Rightarrow> 's jsfunction \<Rightarrow> curry_out \<Rightarrow> val list list
     \<Rightarrow> ('s, curry_out) comp" where
  "apply_batches call_returned fn out [] = ret out"
| "apply_batches call_returned fn (Partial this args) (b # bs) =
     bindS (partial_call fn this args b) (\<lambda>out. apply_batches call_returned fn out bs)"
| "apply_batches call_returned fn (Returned r) (b # bs) =
     bindS (call_returned r b) (\<lambda>r'. apply_batches call_returned fn (Returned r') bs)"

definition curry_chain ::
  "(val \<Rightarrow> val list \<Rightarrow> ('s, val) comp) \<Rightarrow> 's jsfunction \<Rightarrow> val \<Rightarrow> val list \<Rightarrow> val list list
     \<Rightarrow> ('s, curry_out) comp" where
  "curry_chain call_returned fn this b bs =
     bindS (curried fn this b) (\<lambda>out. apply_batches call_returned fn out bs)"

text \<open>The function of the test, \<open>(a, b, c) => a + b + c\<close>; a missing argument is \<open>undefined\<close>.\<close>

definition arg_at :: "val list \<Rightarrow> nat \<Rightarrow> val" where
  "arg_at args i = (if i < length args then args ! i else VUndefined)"

definition add3 :: "host \<Rightarrow> 's jsfunction" where
  "add3 h =
     \<lparr> fn_length = 3,
       fn_apply = (\<lambda>this args.
         lift (bindE (js_plus h (arg_at args 0) (arg_at args 1))
                 (\<lambda>ab. js_plus h ab (arg_at args 2)))) \<rparr>"

section \<open>compose\<close>

text \<open>
  \<open>Array.prototype.reduceRight\<close> with an initial value: the index runs from \<open>length - 1\<close>
  down to \<open>0\<close>, and each step replaces the accumulator by what the callback returns.
  The loop counter \<open>k\<close> is the number of elements still to visit.
\<close>

fun reduceRight_loop ::
  "(val \<Rightarrow> 'a \<Rightarrow> ('s, val) comp) \<Rightarrow> 'a list \<Rightarrow> nat \<Rightarrow> val \<Rightarrow> ('s, val) comp" where
  "reduceRight_loop cb xs 0 acc = ret acc"
| "reduceRight_loop cb xs (Suc k) acc =
     bindS (cb acc (xs ! k)) (\<lambda>acc'. reduceRight_loop cb xs k acc')"

definition reduceRight ::
  "(val \<Rightarrow> 'a \<Rightarrow> ('s, val) comp) \<Rightarrow> 'a list \<Rightarrow> val \<Rightarrow> ('s, val) comp" where
  "reduceRight cb xs init = reduceRight_loop cb xs (length xs) init"

definition compose :: "'s jsfun list \<Rightarrow> 's jsfun" where
  "compose fns = (\<lambda>init. reduceRight (\<lambda>memo fn. fn memo) fns init)"

text \<open>
  The spec's reading of \<open>compose(f1, f2, ..., fn)(x)\<close> as \<open>f1(f2(...fn(x)))\<close>: the innermost
  call is the rightmost function's, and each outer function receives what the inner call
  returned.
\<close>

fun nested :: "'s jsfun list \<Rightarrow> 's jsfun" where
  "nested [] x = ret x"
| "nested (f # fs) x = bindS (nested fs x) f"

text \<open>The functions of the test: \<open>x + 1\<close>, \<open>`Value: ${x}`\<close> and \<open>x.toUpperCase()\<close>.\<close>

definition increment :: "host \<Rightarrow> 's jsfun" where
  "increment h x = lift (js_plus h x (VNum 1))"

definition stringify :: "host \<Rightarrow> 's jsfun" where
  "stringify h x = lift (bindE (template h x) (\<lambda>s. Inr (VStr (''Value: '' @ s))))"

definition upper_char :: "char \<Rightarrow> char" where
  "upper_char c =
     (case map_of (zip ''abcdefghijklmnopqrstuvwxyz'' ''ABCDEFGHIJKLMNOPQRSTUVWXYZ'') c of
        None \<Rightarrow> c
      | Some u \<Rightarrow> u)"

definition toUpperCase :: "'s jsfun" where
  "toUpperCase x = (case x of VStr s \<Rightarrow> ret (VStr (map upper_char s)) | _ \<Rightarrow> throw TypeError)"

section \<open>Reference definitions and test stubs\<close>

subsection \<open>The dispatch table of \<open>concat\<close>\<close>

text \<open>
  Shallow merge with the keys of \<open>x\<close> overriding the receiver's: every property of the
  receiver, with the value \<open>x\<close> gives it when \<open>x\<close> has the key, and then the properties of
  \<open>x\<close> that the receiver does not have.
\<close>

definition merge_spec :: "(string \<times> val) list \<Rightarrow> (string \<times> val) list \<Rightarrow> (string \<times> val) list" where
  "merge_spec a b =
     map (\<lambda>(k, v). (k, case map_of b k of None \<Rightarrow> v | Some w \<Rightarrow> w)) a
     @ filter (\<lambda>(k, w). map_of a k = None) b"

text \<open>
  Two values are the same up to the order in which an object's properties are listed.
\<close>

definition same_value :: "val \<Rightarrow> val \<Rightarrow> bool" where
  "same_value a b =
     (case a of
        VObj chain props \<Rightarrow>
          (case b of
             VObj chain' props' \<Rightarrow> chain = chain' \<and> map_of props = map_of props'
           | _ \<Rightarrow> False)
      | _ \<Rightarrow> a = b)"

text \<open>
  The part of the table that the code follows. When the receiver holds \<open>undefined\<close> or
  \<open>null\<close>: \<open>x\<close> itself (for an \<open>x\<close> other than \<open>null\<close> this is what \<open>Optional.of(x)\<close> holds).
  Otherwise by the runtime type of \<open>x\<close>, for a held value of the same kind: bigint by
  addition, number by addition (where the sum of two integers is exact, that is up to
  \<open>2^53\<close>), string by concatenation, boolean by logical AND, array by concatenation with the
  receiver's elements first, object or function by shallow merge. \<open>None\<close> where the table
  gives no answer or the code does not follow it.
\<close>

definition object_like :: "val \<Rightarrow> bool" where
  "object_like v = (case v of VObj chain props \<Rightarrow> True | VFun n \<Rightarrow> True | _ \<Rightarrow> False)"

definition concat_ref :: "val \<Rightarrow> val \<Rightarrow> val option" where
  "concat_ref held x =
     (if held = VUndefined \<or> held = VNull then (if x = VNull then None else Some x)
      else (case x of
          VBigInt j \<Rightarrow> (case held of VBigInt i \<Rightarrow> Some (VBigInt (i + j)) | _ \<Rightarrow> None)
        | VNum j \<Rightarrow>
            (case held of
               VNum i \<Rightarrow> if \<bar>i + j\<bar> < 2 ^ 53 then Some (VNum (i + j)) else None
             | _ \<Rightarrow> None)
        | VStr t \<Rightarrow> (case held of VStr s \<Rightarrow> Some (VStr (s @ t)) | _ \<Rightarrow> None)
        | VBool q \<Rightarrow> (case held of VBool p \<Rightarrow> Some (VBool (p \<and> q)) | _ \<Rightarrow> None)
        | VArr ys \<Rightarrow> (case held of VArr xs \<Rightarrow> Some (VArr (xs @ ys)) | _ \<Rightarrow> None)
        | VObj chain props \<Rightarrow>
            (if object_like held then Some (VObj plain (merge_spec (own_props held) props))
             else None)
        | VFun n \<Rightarrow>
            (if object_like held then Some (VObj plain (merge_spec (own_props held) []))
             else None)
        | _ \<Rightarrow> None))"

text \<open>The keys of an object are distinct.\<close>

definition distinct_keys :: "val \<Rightarrow> bool" where
  "distinct_keys v = distinct (map fst (own_props v))"

subsection \<open>Stubs\<close>

text \<open>A call-counting stub: it returns \<open>42\<close> and counts the call in the state.\<close>

definition counting_stub :: "nat jsfun" where
  "counting_stub v = (\<lambda>n. (Inr (VNum 42), Suc n))"

definition counting_stub_Optional :: "val \<Rightarrow> (nat, Optional) comp" where
  "counting_stub_Optional v = (\<lambda>n. (Inr (Optional (VNum 42)), Suc n))"

text \<open>The arrow function \<open>x => g(f(x))\<close> of the composition law.\<close>

definition g_after_f :: "'s jsfun \<Rightarrow> 's jsfun \<Rightarrow> 's jsfun" where
  "g_after_f f g = (\<lambda>x. bindS (f x) g)"

text \<open>\<open>x => null\<close> and \<open>x => x === null\<close>, and \<open>x => new Error()\<close> and \<open>x => 1\<close>.\<close>

definition returns_null :: "unit jsfun" where
  "returns_null x = ret VNull"

definition tells_null :: "unit jsfun" where
  "tells_null x = ret (VBool (x = VNull))"


definition returns_error :: "unit jsfun" where
  "returns_error x = ret (VObj error_chain [])"

definition returns_one :: "unit jsfun" where
  "returns_one x = ret (VNum 1)"

text \<open>A host in which the value a curried function returned cannot be called.\<close>

definition not_callable :: "val \<Rightarrow> val list \<Rightarrow> (unit, val) comp" where
  "not_callable r args = throw TypeError"

text \<open>
  A host for the tests: no object or function can be turned into a primitive, functions
  have no name, and no number beyond \<open>2^53\<close> is rendered.
\<close>

definition test_host :: host where
  "test_host =
     \<lparr> prim_default = (\<lambda>v. Inl TypeError),
       prim_string = (\<lambda>v. Inl TypeError),
       render_number = (\<lambda>n. []),
       function_name = (\<lambda>n. []) \<rparr>"

subsection \<open>The fixtures of the repository's tests\<close>

text \<open>
  An Optional seen as a value: an object whose prototype carries the methods of the class.
  The matcher object of the test of \<open>match\<close> has five handlers; \<open>x => x(42)\<close> calls its
  argument, here the function \<open>x => 'fn' + x\<close> of the test.
\<close>

definition Optional_object :: "Optional \<Rightarrow> val" where
  "Optional_object c =
     VObj [(''Optional'', [''constructor'', ''map'', ''apply'', ''bind'', ''concat'', ''match'']),
           object_proto]
          [(''x'', Optional_x c)]"

definition leaf_env :: "unit fenv" where
  "leaf_env n x = lift (js_plus test_host (VStr ''fn'') x)"

definition test_env :: "unit fenv" where
  "test_env n x =
     (if n = 0 then (case x of VArr xs \<Rightarrow> ret (arg_at xs 0) | _ \<Rightarrow> ret VUndefined)
      else if n = 1 then lift (js_plus test_host x (VStr ''String''))
      else if n = 2 then lift (js_plus test_host x (VStr ''Number''))
      else if n = 3 then
        lift (bindE (is_fn TFunctor x) (\<lambda>b. js_plus test_host (VBool b) (VStr ''Functor'')))
      else if n = 4 then call_val leaf_env x (VNum 42)
      else leaf_env n x)"

definition test_matchers :: "(string \<times> val) list" where
  "test_matchers =
     [(''foo'', VStr ''is a foo''), (''Array'', VFun 0), (''String'', VFun 1),
      (''Number'', VFun 2), (''Functor'', VFun 3), (''Function'', VFun 4),
      (''_'', VStr ''default'')]"

section \<open>Running a computation\<close>

lemma ret_apply: "ret a s = (Inr a, s)"
  by (simp add: ret_def)

lemma throw_apply: "throw e s = (Inl e, s)"
  by (simp add: throw_def)

lemma lift_apply: "lift r s = (r, s)"
  by (simp add: lift_def)

lemma bindS_apply:
  "bindS m f s = (case m s of (Inl e, s') \<Rightarrow> (Inl e, s') | (Inr a, s') \<Rightarrow> f a s')"
  by (simp add: bindS_def)

lemmas run = bindS_apply ret_apply throw_apply lift_apply

lemma bindS_ret: "bindS (ret a) f = f a"
  by (rule ext) (simp add: run)

lemma bindS_throw: "bindS (throw e) f = throw e"
  by (rule ext) (simp add: run)

lemma lift_Inr: "lift (Inr a) = ret a"
  by (rule ext) (simp add: run)

lemma lift_Inl: "lift (Inl e) = throw e"
  by (rule ext) (simp add: run)

lemma bindS_ret_right: "bindS m ret = m"
  by (rule ext) (simp add: run split: prod.splits sum.splits)

lemma bindS_assoc: "bindS (bindS m f) g = bindS m (\<lambda>a. bindS (f a) g)"
  by (rule ext) (simp add: run split: prod.splits sum.splits)

section \<open>Properties of \<open>is\<close>\<close>

lemma is_js_undefined: "is_js t VUndefined = Inr (IsCurried t)"
  by (simp add: is_js_def)

lemma is_fn_total_unless_functor: "t \<noteq> TFunctor \<Longrightarrow> \<exists>b. is_fn t x = Inr b"
  by (cases "(t, x)" rule: is_fn.cases) auto

lemma is_fn_functor_total_unless_null: "x \<noteq> VNull \<Longrightarrow> \<exists>b. is_fn TFunctor x = Inr b"
  by (cases x) auto

lemma cond_is_undefined [simp]: "cond_is (TVal VUndefined) y = Inr (y = VUndefined)"
  by (cases y) (simp_all add: cond_is_def is_js_def)

lemma cond_is_null [simp]: "cond_is (TVal VNull) y = Inr (y = VUndefined \<or> y = VNull)"
  by (cases y) (simp_all add: cond_is_def is_js_def)

lemma is_undefined_or_null_eq [simp]:
  "is_undefined_or_null y = Inr (y = VUndefined \<or> y = VNull)"
  by (simp add: is_undefined_or_null_def)

text \<open>
  With a constructor as the tag, \<open>is\<close> in a condition is truthy on every instance, and on
  \<open>undefined\<close> as well, where it answers with the curried closure.
\<close>

lemma cond_is_ctor [simp]: "cond_is (TCtor c) y = Inr (y = VUndefined \<or> instanceof y c)"
  by (cases y) (simp_all add: cond_is_def is_js_def instanceof_def)

text \<open>
  Claim C7. \<open>is(t, x)\<close> is claimed to be total for every supported tag and every value, the
  absent values \<open>null\<close> and \<open>undefined\<close> included. With the \<open>Functor\<close> tag and \<open>null\<close> the
  \<open>switch\<close> reaches \<open>typeof (x) === 'object' && 'map' in x\<close>; \<open>typeof null\<close> is \<open>'object'\<close>, and
  \<open>'map' in null\<close> raises a TypeError.
\<close>

theorem is_Functor_null_throws: "is_js TFunctor VNull = Inl TypeError"
  by (simp add: is_js_def)

section \<open>Properties of Optional and Result\<close>


lemma Optional_map_eq:
  "Optional_map fn c =
     bindS (fn (Optional_x c)) (\<lambda>y. ret (Optional (if y = VNull then VUndefined else y)))"
  by (rule ext) (auto simp: Optional_map_def run split: prod.splits sum.splits)





lemma Result_of_eq: "Result_of y = Inr (Result y)"
  by (simp add: Result_of_def)

lemma Result_map_eq:
  "Result_map fn c =
     (if Result_x c = VUndefined \<or> instanceof (Result_x c) ''Error'' then ret c
      else bindS (fn (Result_x c)) (\<lambda>y. ret (Result y)))"
  by (simp add: Result_map_def Result_of_eq lift_Inr bindS_ret)

subsection \<open>Short circuit\<close>

text \<open>
  A Result that holds an error is returned as it is by \<open>map\<close>, \<open>apply\<close> and \<open>bind\<close>: the
  outcome does not depend on the function, and the state is the one before the call, so
  the function has not run.
\<close>

lemma Result_map_error:
  "instanceof (Result_x c) ''Error'' \<Longrightarrow> Result_map fn c s = (Inr c, s)"
  by (simp add: Result_map_def run)

lemma Result_bind_error:
  "instanceof (Result_x c) ''Error'' \<Longrightarrow> Result_bind fn c s = (Inr c, s)"
  by (simp add: Result_bind_def run)

lemma Result_apply_error:
  "instanceof (Result_x c) ''Error'' \<Longrightarrow> Result_apply env fn c s = (Inr c, s)"
  by (simp add: Result_apply_def Result_map_def run)

lemma Result_chain_error:
  "instanceof (Result_x c) ''Error'' \<Longrightarrow>
   fold (\<lambda>fn m. bindS m (Result_map fn)) fns (ret c) s = (Inr c, s)"
  by (induction fns rule: rev_induct) (simp_all add: run Result_map_error)

text \<open>An Optional calls the function of \<open>bind\<close> on \<open>undefined\<close> as \<open>map\<close> does.\<close>

lemma Optional_bind_absent_calls_fn:
  "Optional_bind counting_stub_Optional (Optional VUndefined) 0 = (Inr (Optional (VNum 42)), 1)"
  by (simp add: Optional_bind_def counting_stub_Optional_def run)

text \<open>
  Claim C1. An absent Optional is claimed to come back absent from \<open>map\<close>, with the function
  never called. \<open>Optional.map\<close> has no test of \<open>this.x\<close>: on \<open>Optional.of(undefined)\<close> the
  call-counting stub is called once, with \<open>undefined\<close>, and the Optional returned holds
  what the stub returned.
\<close>

theorem Optional_map_absent_calls_fn:
  "Optional_of VUndefined = Inr (Optional VUndefined)
   \<and> Optional_map counting_stub (Optional VUndefined) 0 = (Inr (Optional (VNum 42)), 1)"
  by (simp add: Optional_of_def Optional_map_def counting_stub_def run)

subsection \<open>The composition law of \<open>map\<close>\<close>

text \<open>
  The law as claim C8 states it, for every \<open>f\<close> and \<open>g\<close>, fails. With \<open>f = x => null\<close> and
  \<open>g = x => x === null\<close>, \<open>Optional.of(1).map(f)\<close> holds \<open>undefined\<close> (the \<open>null\<close> is normalised),
  so \<open>.map(g)\<close> holds \<open>false\<close>, while \<open>map(x => g(f(x)))\<close> holds \<open>true\<close>. With
  \<open>f = x => new Error()\<close> and \<open>g = x => 1\<close>, \<open>Result.of(1).map(f)\<close> is in the error state and
  \<open>.map(g)\<close> returns it, while \<open>map(x => g(f(x)))\<close> holds \<open>1\<close>.
\<close>

theorem map_composition_counterexample:
  "bindS (Optional_map returns_null (Optional (VNum 1))) (Optional_map tells_null) ()
     \<noteq> Optional_map (g_after_f returns_null tells_null) (Optional (VNum 1)) ()
   \<and> bindS (Optional_map returns_null (Optional (VNum 1))) (Optional_map tells_null) ()
     = (Inr (Optional (VBool False)), ())
   \<and> Optional_map (g_after_f returns_null tells_null) (Optional (VNum 1)) ()
     = (Inr (Optional (VBool True)), ())
   \<and> bindS (Result_map returns_error (Result (VNum 1))) (Result_map returns_one) ()
     = (Inr (Result (VObj error_chain [])), ())
   \<and> Result_map (g_after_f returns_error returns_one) (Result (VNum 1)) ()
     = (Inr (Result (VNum 1)), ())"
  by (simp add: Optional_map_eq Result_map_eq g_after_f_def returns_null_def tells_null_def
      returns_error_def returns_one_def run instanceof_def error_chain_def)

text \<open>
  Claim C8, amended. For a present container and functions \<open>f\<close>, \<open>g\<close> such that \<open>f\<close>, applied
  to the held value, does not return a value of the absorbing kind (\<open>null\<close> or \<open>undefined\<close>
  for an Optional; an \<open>Error\<close>, or \<open>undefined\<close>, for a Result), \<open>c.map(f).map(g)\<close> and
  \<open>c.map(x => g(f(x)))\<close> have the same outcome: the same held value, or the same exception,
  and the same effects.
\<close>

theorem map_composition:
  assumes "Optional_x c \<noteq> VUndefined" and "Optional_x c \<noteq> VNull"
    and "\<forall>s1. f (Optional_x c) s \<noteq> (Inr VNull, s1) \<and> f (Optional_x c) s \<noteq> (Inr VUndefined, s1)"
    and "Result_x d \<noteq> VUndefined" and "\<not> instanceof (Result_x d) ''Error''"
    and "\<forall>y s1. f' (Result_x d) s = (Inr y, s1) \<longrightarrow> y \<noteq> VUndefined \<and> \<not> instanceof y ''Error''"
  shows "bindS (Optional_map f c) (Optional_map g) s = Optional_map (g_after_f f g) c s
       \<and> bindS (Result_map f' d) (Result_map g') s = Result_map (g_after_f f' g') d s"
proof
  show "bindS (Optional_map f c) (Optional_map g) s = Optional_map (g_after_f f g) c s"
  proof (cases "f (Optional_x c) s")
    case (Pair r s1)
    show ?thesis
    proof (cases r)
      case (Inl e)
      with Pair show ?thesis by (simp add: Optional_map_eq g_after_f_def run)
    next
      case (Inr y)
      with Pair assms(3) have "y \<noteq> VNull" by auto
      with Pair Inr show ?thesis by (simp add: Optional_map_eq g_after_f_def run)
    qed
  qed
next
  show "bindS (Result_map f' d) (Result_map g') s = Result_map (g_after_f f' g') d s"
  proof (cases "f' (Result_x d) s")
    case (Pair r s1)
    show ?thesis
    proof (cases r)
      case (Inl e)
      with Pair assms(4,5) show ?thesis by (simp add: Result_map_eq g_after_f_def run)
    next
      case (Inr y)
      with Pair assms(6) have "y \<noteq> VUndefined \<and> \<not> instanceof y ''Error''" by auto
      with Pair Inr assms(4,5) show ?thesis by (simp add: Result_map_eq g_after_f_def run)
    qed
  qed
qed

theorem map_composition_witness:
  "bindS (Optional_map returns_one (Optional (VNum 5))) (Optional_map tells_null) ()
     = Optional_map (g_after_f returns_one tells_null) (Optional (VNum 5)) ()
   \<and> bindS (Result_map returns_one (Result (VNum 5))) (Result_map tells_null) ()
     = Result_map (g_after_f returns_one tells_null) (Result (VNum 5)) ()"
proof -
  have a: "\<forall>s1. returns_one (Optional_x (Optional (VNum 5))) () \<noteq> (Inr VNull, s1)
      \<and> returns_one (Optional_x (Optional (VNum 5))) () \<noteq> (Inr VUndefined, s1)"
    by (simp add: returns_one_def run)
  have b: "\<forall>y s1. returns_one (Result_x (Result (VNum 5))) () = (Inr y, s1)
      \<longrightarrow> y \<noteq> VUndefined \<and> \<not> instanceof y ''Error''"
    by (auto simp: returns_one_def run instanceof_def)
  have c: "\<not> instanceof (Result_x (Result (VNum 5))) ''Error''"
    by (simp add: instanceof_def)
  show ?thesis
    using map_composition [of "Optional (VNum 5)" returns_one "()" "Result (VNum 5)" returns_one
        tells_null tells_null] a b c
    by simp
qed

subsection \<open>Normalisation\<close>





section \<open>Properties of concat\<close>

subsection \<open>Writing properties\<close>

lemma map_of_insert_key:
  "k \<notin> fst ` set obj \<Longrightarrow> map_of (insert_key k v obj) = (map_of obj)(k \<mapsto> v)"
  by (induction obj) (auto simp: fun_eq_iff)

lemma map_of_put_prop: "map_of (put_prop k v obj) = (map_of obj)(k \<mapsto> v)"
  by (simp add: put_prop_def update_conv' map_of_insert_key)

lemma map_of_put_props: "map_of (put_props ps obj) = map_of obj ++ map_of (rev ps)"
proof (induction ps arbitrary: obj)
  case Nil
  show ?case by (simp add: put_props_def)
next
  case (Cons p ps)
  obtain k v where p: "p = (k, v)" by (cases p)
  have "map_of (put_props (p # ps) obj) = map_of (put_props ps (put_prop k v obj))"
    by (simp add: put_props_def p)
  also have "\<dots> = (map_of obj)(k \<mapsto> v) ++ map_of (rev ps)"
    by (simp only: Cons.IH map_of_put_prop)
  also have "\<dots> = map_of obj ++ map_of (rev (p # ps))"
    by (auto simp: p fun_eq_iff map_add_def split: option.splits)
  finally show ?case .
qed

lemma map_of_rev_distinct: "distinct (map fst ps) \<Longrightarrow> map_of (rev ps) = map_of ps"
proof (induction ps)
  case Nil
  show ?case by simp
next
  case (Cons p ps)
  obtain k v where p: "p = (k, v)" by (cases p)
  have fresh: "map_of ps k = None"
    using Cons.prems p by (simp add: map_of_eq_None_iff)
  have "map_of (rev (p # ps)) = [k \<mapsto> v] ++ map_of ps"
    using Cons by (simp add: p)
  also have "\<dots> = (map_of ps)(k \<mapsto> v)"
    using fresh by (auto simp: map_add_def fun_eq_iff split: option.splits)
  finally show ?case by (simp add: p)
qed

text \<open>
  The merge of the spec, read as a map: the properties of the receiver, overridden by
  those of \<open>x\<close>.
\<close>

lemma map_of_override:
  "map_of (map (\<lambda>(k, v). (k, case map_of b k of None \<Rightarrow> v | Some w \<Rightarrow> w)) a) k
   = (case map_of a k of None \<Rightarrow> None
      | Some v \<Rightarrow> Some (case map_of b k of None \<Rightarrow> v | Some w \<Rightarrow> w))"
  by (induction a) (auto split: option.splits)

lemma map_of_fresh_part:
  "map_of (filter (\<lambda>(k, w). map_of a k = None) b) k
   = (if map_of a k = None then map_of b k else None)"
  by (induction b) auto

lemma map_of_merge_spec: "map_of (merge_spec a b) = map_of a ++ map_of b"
  by (rule ext)
    (simp add: merge_spec_def map_of_override map_of_fresh_part map_add_def
      split: option.splits)

lemma spread_object_merge:
  assumes "distinct_keys a" and "distinct_keys b"
  shows "same_value (spread_object a b) (VObj plain (merge_spec (own_props a) (own_props b)))"
proof -
  have "map_of (put_props (own_props b) (put_props (own_props a) []))
        = map_of (own_props a) ++ map_of (own_props b)"
    using assms by (simp add: map_of_put_props map_of_rev_distinct distinct_keys_def)
  then show ?thesis
    by (simp add: same_value_def spread_object_def map_of_merge_spec)
qed

lemma same_value_refl: "same_value v v"
  by (cases v) (simp_all add: same_value_def)

subsection \<open>The tests of the dispatch\<close>

lemma cond_is_BigInt [simp]: "cond_is TBigInt x = Inr (x = VUndefined \<or> typeof x = TyBigint)"
  by (cases x) (simp_all add: cond_is_def is_js_def)

lemma cond_is_Number [simp]: "cond_is TNumber x = Inr (x = VUndefined \<or> typeof x = TyNumber)"
  by (cases x) (simp_all add: cond_is_def is_js_def)

lemma cond_is_String [simp]: "cond_is TString x = Inr (x = VUndefined \<or> typeof x = TyString)"
  by (cases x) (simp_all add: cond_is_def is_js_def)

lemma cond_is_Boolean [simp]: "cond_is TBoolean x = Inr (x = VUndefined \<or> typeof x = TyBoolean)"
  by (cases x) (simp_all add: cond_is_def is_js_def)

lemma cond_is_Object [simp]: "cond_is TObject x = Inr (x = VUndefined \<or> typeof x = TyObject)"
  by (cases x) (simp_all add: cond_is_def is_js_def)

lemma cond_is_Function [simp]: "cond_is TFunction x = Inr (x = VUndefined \<or> typeof x = TyFunction)"
  by (cases x) (simp_all add: cond_is_def is_js_def)

lemma cond_is_Array [simp]:
  "cond_is TArray x = Inr (x = VUndefined \<or> (case x of VArr xs \<Rightarrow> True | _ \<Rightarrow> False))"
  by (cases x) (simp_all add: cond_is_def is_js_def)

lemmas plus_defs =
  js_plus_def to_primitive_def is_primitive_def numeric_add_def double_add_def
  round_double_def test_host_def

subsection \<open>Where the code follows the table\<close>

lemma Optional_concat_ref:
  assumes "concat_ref held x = Some r" and "distinct_keys held" and "distinct_keys x"
  shows "\<exists>v. Optional_concat h x (Optional held) = Inr (Optional v) \<and> same_value v r"
proof (cases "held = VUndefined \<or> held = VNull")
  case True
  with assms(1) show ?thesis
    by (auto simp: concat_ref_def Optional_concat_def same_value_refl split: if_splits)
next
  case False
  note present = this
  show ?thesis
  proof (cases x)
    case (VObj chain props)
    with assms(1) present have ol: "object_like held"
      and r: "r = VObj plain (merge_spec (own_props held) props)"
      by (auto simp: concat_ref_def split: if_splits)
    have "same_value (spread_object held x) r"
      using spread_object_merge [OF assms(2,3)] by (simp add: r VObj)
    with present show ?thesis by (simp add: Optional_concat_def VObj)
  next
    case (VFun n)
    with assms(1) present have ol: "object_like held"
      and r: "r = VObj plain (merge_spec (own_props held) [])"
      by (auto simp: concat_ref_def split: if_splits)
    have "same_value (spread_object held x) r"
      using spread_object_merge [OF assms(2,3)] by (simp add: r VFun)
    with present show ?thesis by (simp add: Optional_concat_def VFun)
  qed (use assms(1) present in \<open>auto simp: concat_ref_def Optional_concat_def plus_defs js_and_def
         same_value_refl split: val.splits if_splits\<close>)
qed

text \<open>\<open>Result.concat\<close> computes what \<open>Optional.concat\<close> computes, in a Result.\<close>

lemma map_sum_bindE: "map_sum id f (bindE m g) = bindE m (\<lambda>a. map_sum id f (g a))"
  by (cases m) simp_all

lemma Result_concat_as_Optional:
  "Result_concat h x (Result held) =
   map_sum id (\<lambda>c. Result (Optional_x c)) (Optional_concat h x (Optional held))"
  by (simp add: Result_concat_def Optional_concat_def map_sum_bindE)

lemma Result_concat_ref:
  assumes "concat_ref held x = Some r" and "distinct_keys held" and "distinct_keys x"
  shows "\<exists>v. Result_concat h x (Result held) = Inr (Result v) \<and> same_value v r"
  using Optional_concat_ref [OF assms, of h] by (auto simp: Result_concat_as_Optional)

subsection \<open>Where the code leaves the table\<close>

text \<open>
  \<open>undefined\<close> as \<open>x\<close> is caught by the first test of the dispatch: \<open>is(BigInt, undefined)\<close> is
  the curried closure, and the held value is added to \<open>undefined\<close>. \<open>null\<close> is merged as an
  object, since \<open>typeof null\<close> is \<open>'object'\<close>.
\<close>

lemma concat_undefined_adds:
  "Optional_concat test_host VUndefined (Optional (VStr ''a''))
   = Inr (Optional (VStr ''aundefined''))"
  by (simp add: Optional_concat_def plus_defs)

lemma concat_null_merges:
  "Optional_concat h VNull (Optional (VObj plain [(''a'', VNum 1)]))
   = Inr (Optional (VObj plain [(''a'', VNum 1)]))"
  by (simp add: Optional_concat_def spread_object_def put_props_def put_prop_def)

text \<open>
  The first test of \<open>Result.concat\<close> is \<open>is(undefined, this.x) || is(null, this.x)\<close>, as in
  Optional, where \<open>map\<close>, \<open>bind\<close> and \<open>match\<close> of Result test \<open>is(Error, this.x)\<close>: a Result
  that holds an error is not replaced but goes through the dispatch, and with an array as
  \<open>x\<close> the spread of the error is a TypeError.
\<close>

lemma concat_Result_error:
  "cond_is (TCtor ''Error'') (VObj error_chain []) = Inr True
   \<and> Result_concat h (VArr [VNum 1]) (Result (VObj error_chain [])) = Inl TypeError"
  by (simp add: Result_concat_def instanceof_def error_chain_def)

text \<open>The sum of two numbers is the sum of doubles: \<open>2^53 + 1\<close> is \<open>2^53\<close>.\<close>

lemma concat_number_rounds:
  "Optional_concat test_host (VNum 1) (Optional (VNum 9007199254740992))
   = Inr (Optional (VNum 9007199254740992))"
proof -
  have "bit_length 9007199254740993 = 54"
    by (simp add: bit_length.simps)
  then show ?thesis
    by (simp add: Optional_concat_def plus_defs)
qed

text \<open>The keys that are array indices come first: \<open>{b: 1}\<close> with \<open>{0: 5}\<close> is \<open>{0: 5, b: 1}\<close>.\<close>

lemma concat_index_keys_first:
  "Optional_concat h (VObj plain [(''0'', VNum 5)]) (Optional (VObj plain [(''b'', VNum 1)]))
   = Inr (Optional (VObj plain [(''0'', VNum 5), (''b'', VNum 1)]))"
  by (simp add: Optional_concat_def spread_object_def put_props_def put_prop_def
      enumerated_before_def index_of_def show_int_def show_digits.simps)

text \<open>
  Claim C2. By the table of the claim, \<open>concat(x)\<close> with an \<open>x\<close> of any other type replaces the
  held value by \<open>x\<close>. The last test of the dispatch is written \<open>is(Object, x) || is(Function)\<close>:
  \<open>is(Function)\<close>, called without \<open>x\<close>, returns its curried closure, which is truthy, so the
  merge is taken for every \<open>x\<close> that reaches the test and the replacing branch is never
  reached. With a symbol as \<open>x\<close>, \<open>Optional.of(Symbol('a')).concat(Symbol('b'))\<close> holds the
  empty object \<open>{}\<close>, not the symbol \<open>x\<close>, and so does the same call on a Result.
\<close>

theorem concat_never_replaces:
  "Optional_concat h (VSym n) (Optional (VSym m)) = Inr (Optional (VObj plain []))
   \<and> Result_concat h (VSym n) (Result (VSym m)) = Inr (Result (VObj plain []))
   \<and> VObj plain [] \<noteq> VSym n"
  by (simp add: Optional_concat_def Result_concat_def spread_object_def put_props_def)

section \<open>Properties of match\<close>

lemma template_string [simp]: "template h (VStr t) = Inr t"
  by (simp add: template_def to_primitive_def is_primitive_def)

lemma template_zero [simp]: "template h (VNum 0) = Inr ''0''"
  by (simp add: template_def to_primitive_def is_primitive_def show_int_def show_digits.simps)

lemma match_no_default_raises:
  "match_js h env [(''foo'', VStr ''bar'')] (VStr ''baz'') s = (Inl (NoMatch (VStr ''baz'')), s)"
  by (simp add: match_js_def key_matches_def run)

text \<open>A truthy value whose constructor has a name is caught by the fallback entry.\<close>

lemma match_default_truthy:
  "truthy x \<Longrightarrow> constructor_name h x = Inr c \<Longrightarrow> c \<noteq> Some ''_'' \<Longrightarrow> x \<noteq> VStr ''_'' \<Longrightarrow>
   match_js h env [(''_'', VStr ''default'')] x s = (Inr (MatchValue (VStr ''default'')), s)"
  by (cases x) (auto simp: match_js_def key_matches_def run)

text \<open>Without a constructor, \<open>x.constructor.name\<close> is a TypeError before \<open>_\<close> is looked at.\<close>

lemma match_default_no_constructor:
  "match_js h env [(''_'', VStr ''default'')] (VObj [] []) s = (Inl TypeError, s)"
  by (simp add: match_js_def key_matches_def inherited_constructor_def run)

text \<open>
  An own property \<open>constructor\<close> hides the inherited one: with \<open>{constructor: null}\<close> as the
  value, \<open>x.constructor.name\<close> reads \<open>name\<close> from \<open>null\<close>, a TypeError.
\<close>

lemma match_own_constructor_null:
  "match_js h env [(''_'', VStr ''default'')] (VObj plain [(''constructor'', VNull)]) s
   = (Inl TypeError, s)"
  by (simp add: match_js_def key_matches_def name_of_def run)

text \<open>
  A symbol that no key matches cannot be rendered in the message: the template literal is
  a TypeError, and the Error \<open>No match for\<close> is not thrown.
\<close>

lemma match_symbol_unmatched:
  "match_js h env [(''foo'', VStr ''bar'')] (VSym n) s = (Inl TypeError, s)"
  by (simp add: match_js_def key_matches_def template_def to_primitive_def is_primitive_def run)

text \<open>With \<open>undefined\<close> as the value, \<open>match\<close> returns the curried function and raises nothing.\<close>

lemma match_undefined_curried:
  "match_js h env [(''foo'', VStr ''bar'')] VUndefined s = (Inr MatchCurried, s)"
  by (simp add: match_js_def run)

text \<open>
  Claim C3. With a fallback entry \<open>_\<close>, \<open>match\<close> is claimed never to raise. The test of the
  loop is \<open>x === k || x && (... || k === '_')\<close>: the fallback is inside the \<open>x && (...)\<close>, so
  a falsy value such as \<open>0\<close> never reaches it, and \<open>match({_: 'default'}, 0)\<close> leaves the
  loop and throws \<open>No match for '0'\<close>.
\<close>

theorem match_default_misses_zero:
  "match_js h env [(''_'', VStr ''default'')] (VNum 0) s = (Inl (NoMatch (VNum 0)), s)"
  by (simp add: match_js_def key_matches_def run)

section \<open>Properties of Effect\<close>

text \<open>
  \<open>Effect.of\<close> and \<open>map\<close> build an Effect and take no state: nothing runs until \<open>call\<close>. When
  the wrapped function returns a value that is neither \<open>undefined\<close> nor a promise, \<open>call\<close>
  on the mapped Effect runs the wrapped function and then the mapped one, once each.
\<close>

lemma Effect_call_of: "Effect_call (Effect_of f) args = f args"
  by (simp add: Effect_call_def Effect_of_def)

lemma Effect_call_map_sync:
  assumes "Effect_call e args s = (Inr y, s1)" and "y \<noteq> VUndefined"
    and "\<not> instanceof y ''Promise''"
  shows "Effect_call (Effect_map host_then g e) args s = g y s1"
  using assms by (simp add: Effect_call_def Effect_map_def run)

lemma Effect_call_map_map_sync:
  assumes "f args s = (Inr y, s1)" and "y \<noteq> VUndefined" and "\<not> instanceof y ''Promise''"
    and "g y s1 = (Inr z, s2)" and "z \<noteq> VUndefined" and "\<not> instanceof z ''Promise''"
  shows "Effect_call (Effect_map host_then h (Effect_map host_then g (Effect_of f))) args s
         = h z s2"
proof -
  have "Effect_call (Effect_map host_then g (Effect_of f)) args s = (Inr z, s2)"
    using assms(1-4) by (simp add: Effect_call_map_sync [where y = y] Effect_call_of)
  then show ?thesis
    using assms(5,6) by (rule Effect_call_map_sync)
qed

text \<open>
  When the wrapped function returns a promise, \<open>call\<close> hands the mapped function to the
  host's \<open>then\<close>: the library itself does not run it.
\<close>

lemma Effect_call_map_promise:
  assumes "Effect_call e args s = (Inr y, s1)" and "instanceof y ''Promise''"
  shows "Effect_call (Effect_map host_then g e) args s = host_then y g s1"
  using assms by (cases y) (simp_all add: Effect_call_def Effect_map_def call_then_def run instanceof_def)

lemma promise_is_promise: "instanceof (VObj promise_chain []) ''Promise''"
  by (simp add: instanceof_def promise_chain_def)

text \<open>
  Claim C4. For a function that returns synchronously, \<open>Effect.of(f).map(g).call(args)\<close> is
  claimed to be \<open>g(f(args))\<close>. \<open>map\<close> tests \<open>is(Promise, y)\<close>, and \<open>is\<close> answers with its
  curried closure when \<open>y\<close> is \<open>undefined\<close>: the closure is truthy, \<open>y.then(fn)\<close> is
  evaluated on \<open>undefined\<close>, and the call throws a TypeError without \<open>g\<close> having run.
\<close>

theorem Effect_map_undefined_throws:
  "Effect_call (Effect_map host_then g (Effect_of (\<lambda>args. ret VUndefined))) args s
   = (Inl TypeError, s)"
  by (simp add: Effect_call_def Effect_map_def Effect_of_def call_then_def run)

section \<open>Properties of compose\<close>

lemma nested_Nil: "nested [] = ret"
  by (rule ext) simp

lemma nested_snoc: "nested (fs @ [f]) x = bindS (f x) (nested fs)"
proof (induction fs arbitrary: x)
  case Nil
  show ?case by (simp add: bindS_ret bindS_ret_right nested_Nil)
next
  case (Cons g gs)
  have "nested ((g # gs) @ [f]) x = bindS (bindS (f x) (nested gs)) g"
    by (simp add: Cons.IH)
  also have "\<dots> = bindS (f x) (\<lambda>a. bindS (nested gs a) g)"
    by (rule bindS_assoc)
  also have "\<dots> = bindS (f x) (nested (g # gs))"
    by (rule arg_cong [where f = "bindS (f x)"]) (rule ext, simp)
  finally show ?case .
qed

lemma reduceRight_loop_nested:
  "k \<le> length fns \<Longrightarrow>
   reduceRight_loop (\<lambda>memo fn. fn memo) fns k acc = nested (take k fns) acc"
proof (induction k arbitrary: acc)
  case 0
  show ?case by simp
next
  case (Suc k)
  then have lt: "k < length fns" by simp
  have ih: "reduceRight_loop (\<lambda>memo fn. fn memo) fns k = nested (take k fns)"
    using Suc by (intro ext) simp
  have "reduceRight_loop (\<lambda>memo fn. fn memo) fns (Suc k) acc
        = bindS ((fns ! k) acc) (\<lambda>acc'. nested (take k fns) acc')"
    by (simp add: ih)
  also have "\<dots> = nested (take k fns @ [fns ! k]) acc"
    by (simp add: nested_snoc)
  also have "\<dots> = nested (take (Suc k) fns) acc"
    using lt by (simp add: take_Suc_conv_app_nth)
  finally show ?case .
qed

text \<open>
  Claim C6. For a non-empty list of functions, \<open>compose(f1, ..., fn)(x)\<close> is the nested call
  \<open>f1(f2(...fn(x)))\<close>: the rightmost function receives \<open>x\<close>, and the leftmost function is
  applied last, to what the composition of the others returned. The test of the source,
  \<open>compose(toUpperCase, stringify, increment)(5)\<close>, gives \<open>'VALUE: 6'\<close>.
\<close>

theorem compose_right_to_left:
  "fns \<noteq> [] \<Longrightarrow> compose fns x = nested fns x \<and> compose fns x = bindS (compose (tl fns) x) (hd fns)"
proof -
  assume ne: "fns \<noteq> []"
  have eq: "\<And>gs. compose gs x = nested gs x"
    by (simp add: compose_def reduceRight_def reduceRight_loop_nested)
  obtain f fs where fns: "fns = f # fs" using ne by (cases fns) auto
  show ?thesis by (simp add: eq fns)
qed

lemma show_int_6: "show_int 6 = ''6''"
  by (simp add: show_int_def show_digits.simps)

theorem compose_right_to_left_witness:
  "[toUpperCase, stringify test_host, increment test_host] \<noteq> []
   \<and> compose [toUpperCase, stringify test_host, increment test_host] (VNum 5) ()
     = (Inr (VStr ''VALUE: 6''), ())"
proof -
  have n: "nested [toUpperCase, stringify test_host, increment test_host] (VNum 5) ()
     = (Inr (VStr ''VALUE: 6''), ())"
    by (simp add: run increment_def stringify_def toUpperCase_def template_def plus_defs
        show_int_6 upper_char_def)
  have c: "compose [toUpperCase, stringify test_host, increment test_host] (VNum 5)
     = (nested [toUpperCase, stringify test_host, increment test_host] (VNum 5)
          :: (unit, val) comp)"
  proof -
    have ne: "[toUpperCase, stringify test_host, increment test_host :: unit jsfun] \<noteq> []"
      by simp
    show ?thesis
      by (rule conjunct1 [OF compose_right_to_left [OF ne]])
  qed
  have "compose [toUpperCase, stringify test_host, increment test_host] (VNum 5) ()
     = (Inr (VStr ''VALUE: 6''), ())"
    by (simp only: c n)
  then show ?thesis by simp
qed

text \<open>
  Claim C9. \<open>compose()\<close> is the identity: \<open>reduceRight\<close> over no functions returns the initial
  value, and no state changes.
\<close>

theorem compose_no_functions: "compose [] x = ret x"
  by (simp add: compose_def reduceRight_def)

section \<open>Properties of curry\<close>

lemma apply_batches_Partial:
  "length args + length (concat bs) < fn_length fn \<Longrightarrow>
   apply_batches cr fn (Partial this args) bs = ret (Partial this (args @ concat bs))"
proof (induction bs arbitrary: args)
  case Nil
  show ?case by simp
next
  case (Cons b bs)
  then have "length (args @ b) + length (concat bs) < fn_length fn" by simp
  then have ih: "apply_batches cr fn (Partial this (args @ b)) bs
                 = ret (Partial this ((args @ b) @ concat bs))"
    by (rule Cons.IH)
  have small: "\<not> fn_length fn \<le> length (args @ b)" using Cons.prems by simp
  show ?case
    using small ih by (simp add: partial_call_def curried_def bindS_ret)
qed

lemma apply_batches_snoc:
  "apply_batches cr fn out (bs @ [b]) =
   bindS (apply_batches cr fn out bs) (\<lambda>out'. apply_batches cr fn out' [b])"
proof (induction bs arbitrary: out)
  case Nil
  show ?case by (simp add: bindS_ret)
next
  case (Cons c cs)
  show ?case
    by (cases out) (simp_all add: Cons.IH bindS_assoc)
qed

text \<open>
  Claim C5. In a chain \<open>curry(fn)(b)(bs1)...(bsn)\<close> whose arguments before the last
  application are fewer than \<open>fn.length\<close>, the last application calls \<open>fn\<close> with all the
  arguments, in the order given, exactly when their number has reached \<open>fn.length\<close>, and
  returns what \<open>fn\<close> returns; otherwise it returns the closure over the arguments so far
  and \<open>fn\<close> has not run. For \<open>add3\<close> the four ways of passing \<open>1, 2, 3\<close> all return \<open>6\<close>.
\<close>

theorem curry_invokes_at_arity:
  assumes "bs = [] \<or> length (concat (butlast (b # bs))) < fn_length fn"
  shows "curry_chain cr fn this b bs =
     (if fn_length fn \<le> length (concat (b # bs))
      then bindS (fn_apply fn this (concat (b # bs))) (\<lambda>r. ret (Returned r))
      else ret (Partial this (concat (b # bs))))"
proof (cases bs rule: rev_cases)
  case Nil
  then show ?thesis
    by (simp add: curry_chain_def curried_def bindS_ret_right bindS_ret)
next
  case (snoc bs' bl)
  with assms have small: "length b + length (concat bs') < fn_length fn"
    by (simp add: butlast_append)
  then have first: "curried fn this b = ret (Partial this b)"
    by (simp add: curried_def)
  have "curry_chain cr fn this b bs =
        bindS (apply_batches cr fn (Partial this b) bs') (\<lambda>out'. apply_batches cr fn out' [bl])"
    by (simp add: curry_chain_def first bindS_ret snoc apply_batches_snoc)
  also have "\<dots> = curried fn this ((b @ concat bs') @ bl)"
    using small
    by (simp add: apply_batches_Partial bindS_ret partial_call_def bindS_ret_right)
  finally show ?thesis
    by (simp add: snoc curried_def)
qed

lemma add3_123:
  "fn_apply (add3 h) this [VNum 1, VNum 2, VNum 3] = ret (VNum 6)"
  by (simp add: add3_def arg_at_def plus_defs lift_Inr)

theorem curry_invokes_at_arity_witness:
  "curry_chain not_callable (add3 test_host) VUndefined [VNum 1, VNum 2, VNum 3] [] () = (Inr (Returned (VNum 6)), ())
   \<and> curry_chain not_callable (add3 test_host) VUndefined [VNum 1] [[VNum 2], [VNum 3]] () = (Inr (Returned (VNum 6)), ())
   \<and> curry_chain not_callable (add3 test_host) VUndefined [VNum 1, VNum 2] [[VNum 3]] () = (Inr (Returned (VNum 6)), ())
   \<and> curry_chain not_callable (add3 test_host) VUndefined [VNum 1] [[VNum 2, VNum 3]] () = (Inr (Returned (VNum 6)), ())
   \<and> curry_chain not_callable (add3 test_host) VUndefined [VNum 1] [[VNum 2]] () = (Inr (Partial VUndefined [VNum 1, VNum 2]), ())"
proof -
  have len: "fn_length (add3 test_host :: unit jsfunction) = 3" by (simp add: add3_def)
  show ?thesis
    using curry_invokes_at_arity [of "[]" "[VNum 1, VNum 2, VNum 3]" "add3 test_host :: unit jsfunction" not_callable VUndefined]
      curry_invokes_at_arity [of "[[VNum 2], [VNum 3]]" "[VNum 1]" "add3 test_host :: unit jsfunction" not_callable VUndefined]
      curry_invokes_at_arity [of "[[VNum 3]]" "[VNum 1, VNum 2]" "add3 test_host :: unit jsfunction" not_callable VUndefined]
      curry_invokes_at_arity [of "[[VNum 2, VNum 3]]" "[VNum 1]" "add3 test_host :: unit jsfunction" not_callable VUndefined]
      curry_invokes_at_arity [of "[[VNum 2]]" "[VNum 1]" "add3 test_host :: unit jsfunction" not_callable VUndefined]
    by (simp add: len add3_123 bindS_ret run)
qed

section \<open>The repository's tests, in the model\<close>

text \<open>
  The tables of \<open>core.test.ts\<close> and \<open>optional.test.ts\<close> for \<open>is\<close>, \<open>match\<close> and
  \<open>Optional.concat\<close>: the model gives what the tests expect.
\<close>

lemma show_int_42: "show_int 42 = ''42''"
  by (simp add: show_int_def show_digits.simps)

lemma is_tests:
  "is_js TString (VStr ''hello'') = Inr (IsBool True)"
  "is_js TNumber (VNum 123) = Inr (IsBool True)"
  "is_js TBoolean (VBool False) = Inr (IsBool True)"
  "is_js (TVal (VStr ''foo'')) (VStr ''foo'') = Inr (IsBool True)"
  "is_js (TVal (VNum 42)) (VNum 42) = Inr (IsBool True)"
  "is_js (TCtor ''Promise'') (VObj promise_chain []) = Inr (IsBool True)"
  "is_js TFunctor (Optional_object (Optional (VNum 42))) = Inr (IsBool True)"
  "is_js TArray (VArr [VNum 42]) = Inr (IsBool True)"
  "is_js TBigInt (VBigInt 42) = Inr (IsBool True)"
  "is_js TObject (VObj plain []) = Inr (IsBool True)"
  "is_js TSymbol (VSym 0) = Inr (IsBool True)"
  "is_js (TVal VUndefined) VUndefined = Inr (IsCurried (TVal VUndefined))"
  "is_js (TVal VNull) VNull = Inr (IsBool True)"
  by (simp_all add: is_js_def instanceof_def promise_chain_def Optional_object_def
      typeof_member_def object_proto_def)

lemma match_tests:
  "match_js test_host test_env test_matchers (VNum 42) () = (Inr (MatchValue (VStr ''42Number'')), ())"
  "match_js test_host test_env test_matchers (VArr [VNum 42]) () = (Inr (MatchValue (VNum 42)), ())"
  "match_js test_host test_env test_matchers (VStr ''42'') () = (Inr (MatchValue (VStr ''42String'')), ())"
  "match_js test_host test_env test_matchers (Optional_object (Optional (VNum 42))) ()
     = (Inr (MatchValue (VStr ''trueFunctor'')), ())"
  "match_js test_host test_env test_matchers (VStr ''foo'') () = (Inr (MatchValue (VStr ''is a foo'')), ())"
  "match_js test_host test_env test_matchers (VFun 5) () = (Inr (MatchValue (VStr ''fn42'')), ())"
  "match_js test_host test_env test_matchers (VBigInt 42) () = (Inr (MatchValue (VStr ''default'')), ())"
  by (simp_all add: match_js_def test_matchers_def key_matches_def run plus_defs show_int_42
      arg_at_def leaf_env_def test_env_def Optional_object_def object_proto_def array_proto_def
      function_proto_def cond_is_def is_js_def typeof_member_def inherited_constructor_def
      template_def)

lemma Optional_concat_tests:
  "Optional_concat test_host (VNum 1) (Optional (VNum 42)) = Inr (Optional (VNum 43))"
  "Optional_concat test_host (VBigInt 1) (Optional (VBigInt 42)) = Inr (Optional (VBigInt 43))"
  "Optional_concat test_host (VStr ''bar'') (Optional (VStr ''foo'')) = Inr (Optional (VStr ''foobar''))"
  "Optional_concat test_host (VArr [VNum 4, VNum 5]) (Optional (VArr [VNum 1, VNum 2, VNum 3]))
     = Inr (Optional (VArr [VNum 1, VNum 2, VNum 3, VNum 4, VNum 5]))"
  "Optional_concat test_host (VObj plain [(''bar'', VStr ''baz'')])
     (Optional (VObj plain [(''foo'', VStr ''bar''), (''bar'', VStr [])]))
     = Inr (Optional (VObj plain [(''foo'', VStr ''bar''), (''bar'', VStr ''baz'')]))"
  by (simp_all add: Optional_concat_def plus_defs spread_object_def put_props_def put_prop_def
      enumerated_before_def index_of_def)

end
